theory Spec2Isabelle
  imports Main
begin

section \<open>fpreputils: the build descriptor and the package initializer\<close>

text \<open>
  The repository holds two Python files: \<^verbatim>\<open>setup.py\<close>, which globs \<^verbatim>\<open>bin/*\<close> and passes
  the result to \<^verbatim>\<open>setuptools.setup\<close>, and \<^verbatim>\<open>fpreputils/__init__.py\<close>, which reads the
  installed version and imports the submodule \<^verbatim>\<open>fmriprep\<close>. Both are module bodies that
  run once, top to bottom. Each is embedded as one function of the environment it reads;
  the library functions it calls (\<^verbatim>\<open>glob.glob\<close>, \<^verbatim>\<open>find_packages\<close>,
  \<^verbatim>\<open>importlib.metadata.version\<close>, the import system) are parameters of that function or
  are modelled below from the behaviour of the Python standard library on POSIX.
\<close>

subsection \<open>Python values that occur in the two files\<close>

datatype pyval =
    PyStr string
  | PyBool bool
  | PyList "string list"
  | PyModule string
  | PyFunction string

subsection \<open>The file system seen by the build descriptor\<close>

text \<open>
  A directory is the list of its entries in the order \<^verbatim>\<open>os.scandir\<close> yields them; an entry
  is a name and a node, and a node is a regular file or a directory. The names \<^verbatim>\<open>.\<close> and
  \<^verbatim>\<open>..\<close> are never among the entries, as with \<^verbatim>\<open>os.scandir\<close>.
\<close>

datatype node = File | Dir "(string \<times> node) list"

type_synonym directory = "(string \<times> node) list"

text \<open>
  The names a directory entry can have on POSIX: not empty, without a slash, and neither
  \<^verbatim>\<open>.\<close> nor \<^verbatim>\<open>..\<close>.
\<close>

definition valid_name :: "string \<Rightarrow> bool" where
  "valid_name n = (n \<noteq> [] \<and> CHR ''/'' \<notin> set n \<and> n \<noteq> ''.'' \<and> n \<noteq> ''..'')"

subsection \<open>The standard library: posixpath, fnmatch and glob\<close>

text \<open>
  \<^verbatim>\<open>posixpath.split\<close>: the tail is what follows the last slash; the head is what precedes
  it, with its trailing slashes removed unless it consists of slashes only.
\<close>

definition os_path_split :: "string \<Rightarrow> string \<times> string" where
  "os_path_split p =
     (let tail = rev (takeWhile (\<lambda>c. c \<noteq> CHR ''/'') (rev p));
          head = rev (dropWhile (\<lambda>c. c \<noteq> CHR ''/'') (rev p))
      in (if head \<noteq> [] \<and> filter (\<lambda>c. c \<noteq> CHR ''/'') head \<noteq> []
          then rev (dropWhile (\<lambda>c. c = CHR ''/'') (rev head))
          else head,
          tail))"

text \<open>
  \<^verbatim>\<open>posixpath.join\<close> of two components: an absolute second component replaces the
  first; otherwise the two are joined by one slash, which is left out when the first is
  empty or already ends in a slash.
\<close>

definition os_path_join :: "string \<Rightarrow> string \<Rightarrow> string" where
  "os_path_join a b =
     (case b of
        c # _ \<Rightarrow>
          (if c = CHR ''/'' then b
           else if a = [] \<or> last a = CHR ''/'' then a @ b
           else a @ ''/'' @ b)
      | [] \<Rightarrow> (if a = [] \<or> last a = CHR ''/'' then a else a @ ''/''))"

text \<open>
  \<^verbatim>\<open>fnmatch\<close> of a name against a shell pattern, for patterns made of literal characters,
  \<^verbatim>\<open>*\<close> (any run of characters, also the empty one) and \<^verbatim>\<open>?\<close> (any one character).
  Bracket expressions are not modelled; the pattern of the build descriptor has none. On
  POSIX \<^verbatim>\<open>os.path.normcase\<close> is the identity, so names are compared as they are.
\<close>

fun fnmatch :: "string \<Rightarrow> string \<Rightarrow> bool" where
  "fnmatch [] [] = True"
| "fnmatch (c # cs) [] = False"
| "fnmatch [] (p # ps) = (p = CHR ''*'' \<and> fnmatch [] ps)"
| "fnmatch (c # cs) (p # ps) =
     (if p = CHR ''*'' then fnmatch (c # cs) ps \<or> fnmatch cs (p # ps)
      else if p = CHR ''?'' then fnmatch cs ps
      else p = c \<and> fnmatch cs ps)"

text \<open>
  \<^verbatim>\<open>glob._ishidden\<close> tests the first character of a path component. Python indexes
  \<^verbatim>\<open>path[0]\<close>, which would raise on the empty string; directory entries and the pattern
  component are never empty there, and the model answers False for the empty string.
\<close>

definition ishidden :: "string \<Rightarrow> bool" where
  "ishidden path = (case path of [] \<Rightarrow> False | c # _ \<Rightarrow> c = CHR ''.'')"

text \<open>
  \<^verbatim>\<open>glob._listdir\<close>: the entry names of the directory \<^verbatim>\<open>dirname\<close>, in scan order. The
  empty \<^verbatim>\<open>dirname\<close> stands for the current directory; any other \<^verbatim>\<open>dirname\<close> is looked up
  as a child of the current directory. When it is missing or is not a directory,
  \<^verbatim>\<open>os.scandir\<close> raises \<^verbatim>\<open>OSError\<close>, which \<^verbatim>\<open>glob\<close> catches, and no name is listed.
\<close>

definition listdir :: "directory \<Rightarrow> string \<Rightarrow> string list" where
  "listdir cwd dirname =
     (if dirname = [] then map fst cwd
      else (case map_of cwd dirname of
              Some (Dir entries) \<Rightarrow> map fst entries
            | Some File \<Rightarrow> []
            | None \<Rightarrow> []))"

text \<open>
  \<^verbatim>\<open>glob._glob1\<close> with \<^verbatim>\<open>include_hidden=False\<close>: unless the pattern itself starts with a
  dot, the names starting with a dot are dropped; the rest is filtered by \<^verbatim>\<open>fnmatch\<close>.
  Nothing looks at the kind of an entry.
\<close>

definition glob1 :: "directory \<Rightarrow> string \<Rightarrow> string \<Rightarrow> string list" where
  "glob1 cwd dirname pattern =
     (let names = listdir cwd dirname;
          names = (if \<not> ishidden pattern then filter (\<lambda>x. \<not> ishidden x) names else names)
      in filter (\<lambda>n. fnmatch n pattern) names)"

text \<open>
  \<^verbatim>\<open>glob.glob(pathname)\<close> with the default arguments (not recursive, hidden names not
  included), along the path \<^verbatim>\<open>glob._iglob\<close> takes for a pathname whose last component
  holds a wildcard and whose directory part is empty or one literal component: the
  pathname is split, the directory part is listed and filtered by \<^verbatim>\<open>_glob1\<close>, and each
  name found is joined to the directory part again. The other paths of \<^verbatim>\<open>_iglob\<close>
  (no wildcard at all, wildcards in the directory part, directory parts of several
  components) are not modelled, and no statement below evaluates \<open>glob_glob\<close> on such a
  pathname.
\<close>

definition glob_glob :: "directory \<Rightarrow> string \<Rightarrow> string list" where
  "glob_glob cwd pathname =
     (let (dirname, basename) = os_path_split pathname
      in if dirname = [] then glob1 cwd dirname basename
         else map (os_path_join dirname) (glob1 cwd dirname basename))"

subsection \<open>setup.py\<close>

text \<open>
  The keyword arguments of a call, in the order they are written.
\<close>

type_synonym kwargs = "(string \<times> pyval) list"

text \<open>
  The module body of \<^verbatim>\<open>setup.py\<close>. It calls \<^verbatim>\<open>glob.glob("bin/*")\<close>, binds the result to
  \<^verbatim>\<open>bin_scripts\<close>, and calls \<^verbatim>\<open>setup\<close> with six keyword arguments. The function returns
  the keyword arguments of that call. Its parameters are the two library functions the
  body calls: \<open>glob\<close> is \<^verbatim>\<open>glob.glob\<close> in the current state of the file system, and
  \<open>find_packages\<close> is the value \<^verbatim>\<open>find_packages()\<close> returns.
\<close>

definition setup_py :: "(string \<Rightarrow> string list) \<Rightarrow> string list \<Rightarrow> kwargs" where
  "setup_py glob find_packages =
     (let bin_scripts = glob ''bin/*''
      in [(''name'', PyStr ''fpreputils''),
          (''version'', PyStr ''0.1''),
          (''packages'', PyList find_packages),
          (''install_requires'', PyList []),
          (''include_package_data'', PyBool True),
          (''scripts'', PyList bin_scripts)])"

text \<open>
  Running \<^verbatim>\<open>setup.py\<close> in a process: \<open>argv\<close> is the command line of the process, \<open>cwd\<close>
  the directory it runs in, \<open>found\<close> what \<^verbatim>\<open>find_packages()\<close> returns there. The module
  body never reads \<^verbatim>\<open>sys.argv\<close>.
\<close>

definition run_setup_py :: "string list \<Rightarrow> directory \<Rightarrow> string list \<Rightarrow> kwargs" where
  "run_setup_py argv cwd found = setup_py (glob_glob cwd) found"

text \<open>The list passed as the keyword argument \<^verbatim>\<open>scripts\<close>.\<close>

definition scripts_of :: "kwargs \<Rightarrow> string list" where
  "scripts_of kw =
     (case map_of kw ''scripts'' of
        Some (PyList xs) \<Rightarrow> xs
      | _ \<Rightarrow> [])"

text \<open>
  What the specification calls the set of files present under a directory: the paths
  of the regular files among its entries. This definition follows the specification's
  words, for comparison with what the glob returns.
\<close>

definition spec_files_under :: "directory \<Rightarrow> string \<Rightarrow> string list" where
  "spec_files_under cwd dirname =
     (case map_of cwd dirname of
        Some (Dir entries) \<Rightarrow>
          map (\<lambda>e. os_path_join dirname (fst e)) (filter (\<lambda>e. snd e = File) entries)
      | _ \<Rightarrow> [])"

subsection \<open>fpreputils/__init__.py\<close>

text \<open>
  An exception raised while the package is imported.
\<close>

datatype exn =
    PackageNotFoundError string
  | ModuleNotFoundError string
  | Raised string

text \<open>
  What the module body reads from the interpreter it runs in. \<open>import_version\<close> is the
  import system executing \<^verbatim>\<open>from importlib.metadata import version\<close>: it raises where the
  interpreter has no \<^verbatim>\<open>importlib.metadata\<close> (before Python 3.8; \<^verbatim>\<open>setup.py\<close> declares no
  \<^verbatim>\<open>python_requires\<close>), and otherwise returns the function \<^verbatim>\<open>version\<close>, which maps the name
  of a distribution to its version string or raises. \<open>import_submodule\<close> is the import
  system executing \<^verbatim>\<open>from . import name\<close> for the package, which returns the submodule or
  raises whatever its import raises.
\<close>

record import_env =
  import_version :: "exn + (string \<Rightarrow> exn + string)"
  import_submodule :: "string \<Rightarrow> exn + pyval"

text \<open>
  The calls the module body makes once \<^verbatim>\<open>version\<close> is imported, in the order it makes
  them.
\<close>

datatype event = CallVersion string | ImportSubmodule string

type_synonym namespace = "string \<rightharpoonup> pyval"

text \<open>
  The module body of \<^verbatim>\<open>fpreputils/__init__.py\<close>, statement by statement. The result is
  the list of calls made and either the exception that ended the import or the
  namespace of the imported package. No statement is inside a \<^verbatim>\<open>try\<close>: an exception
  ends the body where it is raised.
\<close>

definition init_py :: "import_env \<Rightarrow> event list \<times> (exn + namespace)" where
  "init_py env =
     (case import_version env of
        Inl e \<Rightarrow> ([], Inl e)
      | Inr version \<Rightarrow>
          (let ns0 = Map.empty(''version'' \<mapsto> PyFunction ''importlib.metadata.version'');
               calls1 = [CallVersion ''fpreputils'']
           in case version ''fpreputils'' of
                Inl e \<Rightarrow> (calls1, Inl e)
              | Inr v \<Rightarrow>
                  (let ns1 = ns0(''__version__'' \<mapsto> PyStr v);
                       calls2 = calls1 @ [ImportSubmodule ''fmriprep'']
                   in case import_submodule env ''fmriprep'' of
                        Inl e \<Rightarrow> (calls2, Inl e)
                      | Inr m \<Rightarrow>
                          (let ns2 = ns1(''fmriprep'' \<mapsto> m);
                               ns3 = ns2(''__all__'' \<mapsto> PyList [''fmriprep''])
                           in (calls2, Inr ns3)))))"

section \<open>Properties of the build descriptor\<close>

subsection \<open>What the glob over bin/ returns\<close>

text \<open>
  The pattern \<^verbatim>\<open>bin/*\<close> splits into the directory \<^verbatim>\<open>bin\<close> and the pattern \<^verbatim>\<open>*\<close>, which
  matches every name and does not start with a dot. So the glob lists \<^verbatim>\<open>bin\<close>, drops the
  names starting with a dot, and joins the rest to \<^verbatim>\<open>bin\<close>.
\<close>

lemma split_bin_star: "os_path_split ''bin/*'' = (''bin'', ''*'')"
  by (simp add: os_path_split_def)

lemma fnmatch_star: "fnmatch n ''*''"
  by (induction n) simp_all

lemma glob1_star: "glob1 cwd d ''*'' = filter (\<lambda>x. \<not> ishidden x) (listdir cwd d)"
  by (simp add: glob1_def ishidden_def fnmatch_star)

lemma glob_bin_star:
  "glob_glob cwd ''bin/*'' =
     map (os_path_join ''bin'') (filter (\<lambda>x. \<not> ishidden x) (listdir cwd ''bin''))"
  by (simp add: glob_glob_def split_bin_star glob1_star)

lemma listdir_bin: "map_of cwd ''bin'' = Some (Dir es) \<Longrightarrow> listdir cwd ''bin'' = map fst es"
  by (simp add: listdir_def)

lemma scripts_of_setup_py: "scripts_of (setup_py g found) = g ''bin/*''"
  by (simp add: scripts_of_def setup_py_def)

lemma scripts_of_run:
  "scripts_of (run_setup_py argv cwd found) =
     map (os_path_join ''bin'') (filter (\<lambda>x. \<not> ishidden x) (listdir cwd ''bin''))"
  by (simp add: run_setup_py_def scripts_of_setup_py glob_bin_star)

lemma join_bin_valid: "valid_name n \<Longrightarrow> os_path_join ''bin'' n = ''bin/'' @ n"
  by (cases n) (auto simp add: os_path_join_def valid_name_def)

lemma join_bin_eq:
  assumes "os_path_join ''bin'' m = ''bin/'' @ n" and "n \<noteq> []"
  shows "m = n"
proof (cases m)
  case Nil
  with assms show ?thesis by (simp add: os_path_join_def)
next
  case (Cons c cs)
  with assms show ?thesis by (auto simp add: os_path_join_def split: if_splits)
qed

subsection \<open>The scripts list and the contents of bin/\<close>

text \<open>
  C1: the scripts list equals the set of files present under \<^verbatim>\<open>bin/\<close>, which is also
  what the comment on line 5 of \<^verbatim>\<open>setup.py\<close> says (\<^verbatim>\<open>All files in bin/\<close>). The code does
  not do this. For a \<^verbatim>\<open>bin/\<close> that holds the regular files \<^verbatim>\<open>.hidden\<close> and \<^verbatim>\<open>run.sh\<close> and
  the subdirectory \<^verbatim>\<open>tools\<close>, the scripts list is \<^verbatim>\<open>bin/run.sh, bin/tools\<close>, while the
  files under \<^verbatim>\<open>bin/\<close> are \<^verbatim>\<open>bin/.hidden, bin/run.sh\<close>: the file \<^verbatim>\<open>bin/.hidden\<close> is
  dropped and the directory \<^verbatim>\<open>bin/tools\<close> is passed as a script.
\<close>

theorem scripts_at_hidden_file_and_subdirectory:
  "scripts_of (run_setup_py []
      [(''bin'', Dir [(''.hidden'', File), (''run.sh'', File), (''tools'', Dir [])])] [])
     = [''bin/run.sh'', ''bin/tools'']
   \<and> spec_files_under
      [(''bin'', Dir [(''.hidden'', File), (''run.sh'', File), (''tools'', Dir [])])] ''bin''
     = [''bin/.hidden'', ''bin/run.sh'']
   \<and> set (scripts_of (run_setup_py []
          [(''bin'', Dir [(''.hidden'', File), (''run.sh'', File), (''tools'', Dir [])])] []))
     \<noteq> set (spec_files_under
          [(''bin'', Dir [(''.hidden'', File), (''run.sh'', File), (''tools'', Dir [])])] ''bin'')"
proof -
  let ?cwd = "[(''bin'', Dir [(''.hidden'', File), (''run.sh'', File), (''tools'', Dir [])])]"
  have a: "scripts_of (run_setup_py [] ?cwd []) = [''bin/run.sh'', ''bin/tools'']"
    by (simp add: scripts_of_run listdir_def ishidden_def os_path_join_def)
  have b: "spec_files_under ?cwd ''bin'' = [''bin/.hidden'', ''bin/run.sh'']"
    by (simp add: spec_files_under_def os_path_join_def)
  have "''bin/tools'' \<in> set [''bin/run.sh'', ''bin/tools'']" by simp
  moreover have "''bin/tools'' \<notin> set [''bin/.hidden'', ''bin/run.sh'']" by simp
  ultimately have "set [''bin/run.sh'', ''bin/tools''] \<noteq> set [''bin/.hidden'', ''bin/run.sh'']"
    by blast
  with a b show ?thesis by simp
qed

text \<open>
  C8: for a \<^verbatim>\<open>bin/\<close> directory and any entry of it with a valid name, whatever the kind
  of the entry (regular file or subdirectory), the path \<^verbatim>\<open>bin/name\<close> is in the scripts
  list exactly when the name does not begin with a dot; and the scripts list is the same
  for any two \<^verbatim>\<open>bin/\<close> directories with the same entry names, whatever the kinds of the
  entries: the pattern matches by name, not by file type.
\<close>

theorem glob_matches_by_name:
  assumes bin: "map_of cwd ''bin'' = Some (Dir es)"
  shows "(\<forall>n nd. (n, nd) \<in> set es \<and> valid_name n \<longrightarrow>
            (''bin/'' @ n \<in> set (scripts_of (run_setup_py argv cwd found))) = (hd n \<noteq> CHR ''.''))
       \<and> (\<forall>cwd' es'. map_of cwd' ''bin'' = Some (Dir es') \<and> map fst es' = map fst es \<longrightarrow>
            scripts_of (run_setup_py argv cwd' found) = scripts_of (run_setup_py argv cwd found))"
proof (intro conjI allI impI)
  fix n nd
  assume "(n, nd) \<in> set es \<and> valid_name n"
  then have mem: "(n, nd) \<in> set es" and v: "valid_name n" by simp_all
  from v have ne: "n \<noteq> []" by (simp add: valid_name_def)
  then have hid: "ishidden n = (hd n = CHR ''.'')"
    by (cases n) (simp_all add: ishidden_def)
  let ?S = "set (scripts_of (run_setup_py argv cwd found))"
  have S: "?S = os_path_join ''bin'' ` {m \<in> fst ` set es. \<not> ishidden m}"
    by (simp add: scripts_of_run listdir_bin [OF bin])
  show "(''bin/'' @ n \<in> ?S) = (hd n \<noteq> CHR ''.'')"
  proof (cases "ishidden n")
    case True
    have "''bin/'' @ n \<notin> ?S"
    proof
      assume "''bin/'' @ n \<in> ?S"
      then obtain m where m: "\<not> ishidden m" "os_path_join ''bin'' m = ''bin/'' @ n"
        unfolding S by force
      from join_bin_eq [OF m(2) ne] m(1) True show False by simp
    qed
    with True hid show ?thesis by simp
  next
    case False
    from mem have "n \<in> fst ` set es" by force
    with False have "os_path_join ''bin'' n \<in> ?S" unfolding S by blast
    with False hid v show ?thesis by (simp add: join_bin_valid)
  qed
next
  fix cwd' es'
  assume "map_of cwd' ''bin'' = Some (Dir es') \<and> map fst es' = map fst es"
  then show "scripts_of (run_setup_py argv cwd' found) = scripts_of (run_setup_py argv cwd found)"
    by (simp add: scripts_of_run listdir_bin bin)
qed

text \<open>
  C8 at a \<^verbatim>\<open>bin/\<close> holding the regular file \<^verbatim>\<open>.hidden\<close> and the subdirectory \<^verbatim>\<open>tools\<close>:
  \<^verbatim>\<open>bin/.hidden\<close> is absent from the scripts list and \<^verbatim>\<open>bin/tools\<close> is in it; turning
  \<^verbatim>\<open>tools\<close> into a regular file changes nothing.
\<close>

theorem glob_matches_by_name_witness:
  "map_of [(''bin'', Dir [(''.hidden'', File), (''tools'', Dir [(''x'', File)])])] ''bin''
     = Some (Dir [(''.hidden'', File), (''tools'', Dir [(''x'', File)])])
   \<and> valid_name ''.hidden'' \<and> valid_name ''tools''
   \<and> ''bin/.hidden'' \<notin> set (scripts_of (run_setup_py []
         [(''bin'', Dir [(''.hidden'', File), (''tools'', Dir [(''x'', File)])])] []))
   \<and> ''bin/tools'' \<in> set (scripts_of (run_setup_py []
         [(''bin'', Dir [(''.hidden'', File), (''tools'', Dir [(''x'', File)])])] []))
   \<and> scripts_of (run_setup_py [] [(''bin'', Dir [(''.hidden'', File), (''tools'', File)])] [])
     = scripts_of (run_setup_py []
         [(''bin'', Dir [(''.hidden'', File), (''tools'', Dir [(''x'', File)])])] [])"
proof -
  let ?es = "[(''.hidden'', File), (''tools'', Dir [(''x'', File)])]"
  let ?cwd = "[(''bin'', Dir ?es)]"
  let ?cwd' = "[(''bin'', Dir [(''.hidden'', File), (''tools'', File)])]"
  have bin: "map_of ?cwd ''bin'' = Some (Dir ?es)" by simp
  have v: "valid_name ''.hidden''" "valid_name ''tools''" by (simp_all add: valid_name_def)
  note th = glob_matches_by_name [OF bin, of "[]" "[]"]
  from th have byname: "\<And>n nd. (n, nd) \<in> set ?es \<Longrightarrow> valid_name n \<Longrightarrow>
      (''bin/'' @ n \<in> set (scripts_of (run_setup_py [] ?cwd []))) = (hd n \<noteq> CHR ''.'')"
    by blast
  from th have bykind: "\<And>cwd' es'. map_of cwd' ''bin'' = Some (Dir es') \<Longrightarrow>
      map fst es' = map fst ?es \<Longrightarrow>
      scripts_of (run_setup_py [] cwd' []) = scripts_of (run_setup_py [] ?cwd [])"
    by blast
  have a: "''bin/.hidden'' \<notin> set (scripts_of (run_setup_py [] ?cwd []))"
    using byname [of "''.hidden''" File] v by simp
  have b: "''bin/tools'' \<in> set (scripts_of (run_setup_py [] ?cwd []))"
    using byname [of "''tools''" "Dir [(''x'', File)]"] v by simp
  have c: "scripts_of (run_setup_py [] ?cwd' []) = scripts_of (run_setup_py [] ?cwd [])"
    by (rule bykind [of ?cwd' "[(''.hidden'', File), (''tools'', File)]"]) simp_all
  from bin v a b c show ?thesis by simp
qed



subsection \<open>The call of the packaging function\<close>

text \<open>
  C5: the call of \<^verbatim>\<open>setup\<close> has exactly the six keyword arguments \<^verbatim>\<open>name\<close>,
  \<^verbatim>\<open>version\<close>, \<^verbatim>\<open>packages\<close>, \<^verbatim>\<open>install_requires\<close>, \<^verbatim>\<open>include_package_data\<close> and
  \<^verbatim>\<open>scripts\<close>; the name is \<^verbatim>\<open>fpreputils\<close>, the version \<^verbatim>\<open>0.1\<close>, the packages what
  \<^verbatim>\<open>find_packages()\<close> returns, \<^verbatim>\<open>install_requires\<close> the empty list,
  \<^verbatim>\<open>include_package_data\<close> true, and \<^verbatim>\<open>scripts\<close> the result of the glob over \<^verbatim>\<open>bin/\<close>.
  The command line has no influence on the arguments: the descriptor takes no flags of
  its own.
\<close>

theorem setup_call_arguments:
  "map fst (run_setup_py argv cwd found) =
     [''name'', ''version'', ''packages'', ''install_requires'', ''include_package_data'',
      ''scripts'']
   \<and> map_of (run_setup_py argv cwd found) ''name'' = Some (PyStr ''fpreputils'')
   \<and> map_of (run_setup_py argv cwd found) ''version'' = Some (PyStr ''0.1'')
   \<and> map_of (run_setup_py argv cwd found) ''packages'' = Some (PyList found)
   \<and> map_of (run_setup_py argv cwd found) ''install_requires'' = Some (PyList [])
   \<and> map_of (run_setup_py argv cwd found) ''include_package_data'' = Some (PyBool True)
   \<and> map_of (run_setup_py argv cwd found) ''scripts'' = Some (PyList (glob_glob cwd ''bin/*''))
   \<and> run_setup_py argv' cwd found = run_setup_py argv cwd found"
  by (simp add: run_setup_py_def setup_py_def)

text \<open>
  C6: whatever list the glob returns, the \<^verbatim>\<open>scripts\<close> argument of the call is that very
  list: same elements, same order, same length, nothing checked, dropped or rewritten.
  This holds for every function in the place of \<^verbatim>\<open>glob.glob\<close>, and so for the modelled
  glob over any file system.
\<close>

theorem scripts_passed_unchanged:
  "map_of (setup_py glob found) ''scripts'' = Some (PyList (glob ''bin/*''))
   \<and> scripts_of (setup_py glob found) = glob ''bin/*''
   \<and> scripts_of (run_setup_py argv cwd found) = glob_glob cwd ''bin/*''"
  by (simp add: run_setup_py_def setup_py_def scripts_of_def)

text \<open>
  C6 at a glob result that is unsorted, repeats a path and names a hidden path: the
  \<^verbatim>\<open>scripts\<close> argument is that list as it is.
\<close>

theorem scripts_passed_unchanged_witness:
  "scripts_of (setup_py (\<lambda>p. [''bin/z'', ''bin/a'', ''bin/a'', ''bin/.x'']) [''fpreputils''])
     = [''bin/z'', ''bin/a'', ''bin/a'', ''bin/.x'']"
proof -
  from scripts_passed_unchanged [of "\<lambda>p. [''bin/z'', ''bin/a'', ''bin/a'', ''bin/.x'']" "[''fpreputils'']"]
  show ?thesis by blast
qed

section \<open>Properties of the package initializer\<close>

subsection \<open>The four ways the module body can end\<close>

lemma init_py_import_raises:
  "import_version env = Inl e \<Longrightarrow> init_py env = ([], Inl e)"
  by (simp add: init_py_def)

lemma init_py_version_raises:
  "import_version env = Inr lookup \<Longrightarrow> lookup ''fpreputils'' = Inl e \<Longrightarrow>
   init_py env = ([CallVersion ''fpreputils''], Inl e)"
  by (simp add: init_py_def)

lemma init_py_submodule_raises:
  "import_version env = Inr lookup \<Longrightarrow> lookup ''fpreputils'' = Inr v \<Longrightarrow>
   import_submodule env ''fmriprep'' = Inl e \<Longrightarrow>
   init_py env = ([CallVersion ''fpreputils'', ImportSubmodule ''fmriprep''], Inl e)"
  by (simp add: init_py_def)

lemma init_py_succeeds:
  "import_version env = Inr lookup \<Longrightarrow> lookup ''fpreputils'' = Inr v \<Longrightarrow>
   import_submodule env ''fmriprep'' = Inr m \<Longrightarrow>
   init_py env =
     ([CallVersion ''fpreputils'', ImportSubmodule ''fmriprep''],
      Inr [''version'' \<mapsto> PyFunction ''importlib.metadata.version'',
           ''__version__'' \<mapsto> PyStr v,
           ''fmriprep'' \<mapsto> m,
           ''__all__'' \<mapsto> PyList [''fmriprep'']])"
  by (simp add: init_py_def)

lemma init_py_cases:
  obtains (no_importlib) e where "import_version env = Inl e"
  | (no_metadata) lookup e where "import_version env = Inr lookup"
      and "lookup ''fpreputils'' = Inl e"
  | (no_submodule) lookup v e where "import_version env = Inr lookup"
      and "lookup ''fpreputils'' = Inr v" and "import_submodule env ''fmriprep'' = Inl e"
  | (imported) lookup v m where "import_version env = Inr lookup"
      and "lookup ''fpreputils'' = Inr v" and "import_submodule env ''fmriprep'' = Inr m"
proof (cases "import_version env")
  case (Inl e)
  then show ?thesis by (rule no_importlib)
next
  case i: (Inr lookup)
  show ?thesis
  proof (cases "lookup ''fpreputils''")
    case (Inl e)
    with i show ?thesis by (rule no_metadata)
  next
    case v: (Inr v)
    show ?thesis
    proof (cases "import_submodule env ''fmriprep''")
      case (Inl e)
      with i v show ?thesis by (rule no_submodule)
    next
      case (Inr m)
      with i v show ?thesis by (rule imported)
    qed
  qed
qed

lemma init_py_success_cases:
  assumes "init_py env = (calls, Inr ns)"
  obtains lookup v m where "import_version env = Inr lookup"
    and "lookup ''fpreputils'' = Inr v"
    and "import_submodule env ''fmriprep'' = Inr m"
    and "calls = [CallVersion ''fpreputils'', ImportSubmodule ''fmriprep'']"
    and "ns = [''version'' \<mapsto> PyFunction ''importlib.metadata.version'',
           ''__version__'' \<mapsto> PyStr v,
           ''fmriprep'' \<mapsto> m,
           ''__all__'' \<mapsto> PyList [''fmriprep'']]"
proof (cases env rule: init_py_cases)
  case (no_importlib e)
  with assms show ?thesis by (simp add: init_py_import_raises)
next
  case (no_metadata lookup e)
  with assms show ?thesis by (simp add: init_py_version_raises)
next
  case (no_submodule lookup v e)
  with assms show ?thesis by (simp add: init_py_submodule_raises)
next
  case (imported lookup v m)
  with assms that [of lookup v m] show ?thesis by (simp add: init_py_succeeds)
qed

subsection \<open>Failure of the import\<close>

text \<open>
  C2, as the specification states it: the import fails if and only if the metadata of
  \<^verbatim>\<open>fpreputils\<close> cannot be found. This fails where \<^verbatim>\<open>version\<close> is imported, the metadata
  lookup returns \<^verbatim>\<open>0.1\<close> and the import of the submodule raises: the import of the package
  ends with the submodule's exception.
\<close>

theorem import_failure_modes_counterexample:
  "import_version
     \<lparr>import_version = Inr (\<lambda>n. Inr ''0.1''),
      import_submodule = (\<lambda>n. Inl (Raised ''SyntaxError''))\<rparr> = Inr (\<lambda>n. Inr ''0.1'')
   \<and> (\<lambda>n. Inr ''0.1'' :: exn + string) ''fpreputils'' = Inr ''0.1''
   \<and> init_py
     \<lparr>import_version = Inr (\<lambda>n. Inr ''0.1''),
      import_submodule = (\<lambda>n. Inl (Raised ''SyntaxError''))\<rparr>
     = ([CallVersion ''fpreputils'', ImportSubmodule ''fmriprep''], Inl (Raised ''SyntaxError''))"
  by (simp add: init_py_def)

text \<open>
  C2, amended: the import of the package fails if and only if one of the three statements
  of the initializer that can raise does so: the import of \<^verbatim>\<open>version\<close> from
  \<^verbatim>\<open>importlib.metadata\<close> (on an interpreter without that module), the metadata lookup for
  \<^verbatim>\<open>fpreputils\<close>, or the import of the submodule \<^verbatim>\<open>fmriprep\<close>. When the import of
  \<^verbatim>\<open>version\<close> raises, the import ends with that exception before any call is made; when
  the metadata lookup raises, the import ends with exactly the exception the lookup
  raised, after that one call: nothing is caught and nothing is tried again.
\<close>

theorem import_failure_modes:
  "(isl (snd (init_py env)) \<longleftrightarrow>
      isl (import_version env)
      \<or> (\<exists>lookup. import_version env = Inr lookup \<and> isl (lookup ''fpreputils''))
      \<or> isl (import_submodule env ''fmriprep''))
   \<and> (\<forall>e. import_version env = Inl e \<longrightarrow> init_py env = ([], Inl e))
   \<and> (\<forall>lookup e. import_version env = Inr lookup \<and> lookup ''fpreputils'' = Inl e \<longrightarrow>
          init_py env = ([CallVersion ''fpreputils''], Inl e))"
proof (cases env rule: init_py_cases)
  case (no_importlib e)
  then show ?thesis by (simp add: init_py_import_raises)
next
  case (no_metadata lookup e)
  then show ?thesis by (simp add: init_py_version_raises)
next
  case (no_submodule lookup v e)
  then show ?thesis by (simp add: init_py_submodule_raises)
next
  case (imported lookup v m)
  then show ?thesis by (simp add: init_py_succeeds)
qed

text \<open>
  C2 at an interpreter where no distribution is installed: the lookup raises
  \<^verbatim>\<open>PackageNotFoundError\<close> for \<^verbatim>\<open>fpreputils\<close>, and the import ends with it. And at an
  interpreter without \<^verbatim>\<open>importlib.metadata\<close>: the import ends with the
  \<^verbatim>\<open>ModuleNotFoundError\<close> of line 2, although no lookup was made.
\<close>

theorem import_failure_modes_witness:
  "import_version
     \<lparr>import_version = Inr (\<lambda>n. Inl (PackageNotFoundError n)),
      import_submodule = (\<lambda>n. Inr (PyModule (''fpreputils.'' @ n)))\<rparr>
     = Inr (\<lambda>n. Inl (PackageNotFoundError n))
   \<and> (\<lambda>n. Inl (PackageNotFoundError n) :: exn + string) ''fpreputils''
     = Inl (PackageNotFoundError ''fpreputils'')
   \<and> isl (snd (init_py
     \<lparr>import_version = Inr (\<lambda>n. Inl (PackageNotFoundError n)),
      import_submodule = (\<lambda>n. Inr (PyModule (''fpreputils.'' @ n)))\<rparr>))
   \<and> init_py
     \<lparr>import_version = Inr (\<lambda>n. Inl (PackageNotFoundError n)),
      import_submodule = (\<lambda>n. Inr (PyModule (''fpreputils.'' @ n)))\<rparr>
     = ([CallVersion ''fpreputils''], Inl (PackageNotFoundError ''fpreputils''))
   \<and> import_version
     \<lparr>import_version = Inl (ModuleNotFoundError ''importlib.metadata''),
      import_submodule = (\<lambda>n. Inr (PyModule (''fpreputils.'' @ n)))\<rparr>
     = Inl (ModuleNotFoundError ''importlib.metadata'')
   \<and> init_py
     \<lparr>import_version = Inl (ModuleNotFoundError ''importlib.metadata''),
      import_submodule = (\<lambda>n. Inr (PyModule (''fpreputils.'' @ n)))\<rparr>
     = ([], Inl (ModuleNotFoundError ''importlib.metadata''))"
proof -
  let ?lookup = "\<lambda>n. Inl (PackageNotFoundError n) :: exn + string"
  let ?env = "\<lparr>import_version = Inr ?lookup,
      import_submodule = (\<lambda>n. Inr (PyModule (''fpreputils.'' @ n)))\<rparr>"
  let ?old = "\<lparr>import_version = Inl (ModuleNotFoundError ''importlib.metadata''),
      import_submodule = (\<lambda>n. Inr (PyModule (''fpreputils.'' @ n)))\<rparr>"
  have h1: "import_version ?env = Inr ?lookup" by simp
  have h2: "?lookup ''fpreputils'' = Inl (PackageNotFoundError ''fpreputils'')" by simp
  have h3: "import_version ?old = Inl (ModuleNotFoundError ''importlib.metadata'')" by simp
  from import_failure_modes [of ?env]
  have a: "isl (snd (init_py ?env)) \<longleftrightarrow>
      isl (import_version ?env)
      \<or> (\<exists>lookup. import_version ?env = Inr lookup \<and> isl (lookup ''fpreputils''))
      \<or> isl (import_submodule ?env ''fmriprep'')"
    and b: "\<And>lookup e. import_version ?env = Inr lookup \<Longrightarrow> lookup ''fpreputils'' = Inl e \<Longrightarrow>
      init_py ?env = ([CallVersion ''fpreputils''], Inl e)"
    by blast+
  from import_failure_modes [of ?old]
  have c: "\<And>e. import_version ?old = Inl e \<Longrightarrow> init_py ?old = ([], Inl e)"
    by blast
  have "\<exists>lookup. import_version ?env = Inr lookup \<and> isl (lookup ''fpreputils'')"
    using h1 h2 by (intro exI [of _ ?lookup]) simp
  with a have d: "isl (snd (init_py ?env))" by blast
  from h1 h2 h3 d b [OF h1 h2] c [OF h3] show ?thesis by blast
qed

text \<open>
  C10: the version is looked up before the submodule is imported. When the lookup
  raises, the import of the package ends with that exception and no submodule import is
  among the calls made; when the lookup returns a version and the import of \<^verbatim>\<open>fmriprep\<close>
  raises, both calls have been made, in that order, and the import of the package ends
  with the submodule's exception. In every run where \<^verbatim>\<open>version\<close> was imported the first
  call is the version lookup, and in every run at all a submodule import is among the
  calls only after the version lookup.
\<close>

theorem version_before_submodule:
  "(\<forall>lookup e. import_version env = Inr lookup \<and> lookup ''fpreputils'' = Inl e \<longrightarrow>
       snd (init_py env) = Inl e \<and> (\<forall>n. ImportSubmodule n \<notin> set (fst (init_py env))))
   \<and> (\<forall>lookup v e. import_version env = Inr lookup \<and> lookup ''fpreputils'' = Inr v
         \<and> import_submodule env ''fmriprep'' = Inl e \<longrightarrow>
       init_py env = ([CallVersion ''fpreputils'', ImportSubmodule ''fmriprep''], Inl e))
   \<and> (\<forall>lookup. import_version env = Inr lookup \<longrightarrow>
       take 1 (fst (init_py env)) = [CallVersion ''fpreputils''])
   \<and> (\<forall>n. ImportSubmodule n \<in> set (fst (init_py env)) \<longrightarrow>
       fst (init_py env) = [CallVersion ''fpreputils'', ImportSubmodule ''fmriprep''])"
proof (cases env rule: init_py_cases)
  case (no_importlib e)
  then show ?thesis by (simp add: init_py_import_raises)
next
  case (no_metadata lookup e)
  then show ?thesis by (simp add: init_py_version_raises)
next
  case (no_submodule lookup v e)
  then show ?thesis by (simp add: init_py_submodule_raises)
next
  case (imported lookup v m)
  then show ?thesis by (simp add: init_py_succeeds)
qed

text \<open>
  C10 at an interpreter where the lookup raises, and at one where the lookup returns
  \<^verbatim>\<open>0.1\<close> and the submodule is missing.
\<close>

theorem version_before_submodule_witness:
  "import_version
     \<lparr>import_version = Inr (\<lambda>n. Inl (PackageNotFoundError n)),
      import_submodule = (\<lambda>n. Inl (ModuleNotFoundError n))\<rparr>
     = Inr (\<lambda>n. Inl (PackageNotFoundError n))
   \<and> (\<lambda>n. Inl (PackageNotFoundError n) :: exn + string) ''fpreputils''
     = Inl (PackageNotFoundError ''fpreputils'')
   \<and> snd (init_py
     \<lparr>import_version = Inr (\<lambda>n. Inl (PackageNotFoundError n)),
      import_submodule = (\<lambda>n. Inl (ModuleNotFoundError n))\<rparr>)
     = Inl (PackageNotFoundError ''fpreputils'')
   \<and> ImportSubmodule ''fmriprep'' \<notin> set (fst (init_py
     \<lparr>import_version = Inr (\<lambda>n. Inl (PackageNotFoundError n)),
      import_submodule = (\<lambda>n. Inl (ModuleNotFoundError n))\<rparr>))
   \<and> import_version
     \<lparr>import_version = Inr (\<lambda>n. Inr ''0.1''),
      import_submodule = (\<lambda>n. Inl (ModuleNotFoundError n))\<rparr> = Inr (\<lambda>n. Inr ''0.1'')
   \<and> (\<lambda>n. Inr ''0.1'' :: exn + string) ''fpreputils'' = Inr ''0.1''
   \<and> import_submodule
     \<lparr>import_version = Inr (\<lambda>n. Inr ''0.1''),
      import_submodule = (\<lambda>n. Inl (ModuleNotFoundError n))\<rparr> ''fmriprep''
     = Inl (ModuleNotFoundError ''fmriprep'')
   \<and> init_py
     \<lparr>import_version = Inr (\<lambda>n. Inr ''0.1''),
      import_submodule = (\<lambda>n. Inl (ModuleNotFoundError n))\<rparr>
     = ([CallVersion ''fpreputils'', ImportSubmodule ''fmriprep''],
        Inl (ModuleNotFoundError ''fmriprep''))"
proof -
  let ?l1 = "\<lambda>n. Inl (PackageNotFoundError n) :: exn + string"
  let ?l2 = "\<lambda>n. Inr ''0.1'' :: exn + string"
  let ?env1 = "\<lparr>import_version = Inr ?l1,
      import_submodule = (\<lambda>n. Inl (ModuleNotFoundError n))\<rparr>"
  let ?env2 = "\<lparr>import_version = Inr ?l2,
      import_submodule = (\<lambda>n. Inl (ModuleNotFoundError n))\<rparr>"
  have h1: "import_version ?env1 = Inr ?l1" by simp
  have h1': "?l1 ''fpreputils'' = Inl (PackageNotFoundError ''fpreputils'')" by simp
  have h2: "import_version ?env2 = Inr ?l2" by simp
  have h2': "?l2 ''fpreputils'' = Inr ''0.1''" by simp
  have h3: "import_submodule ?env2 ''fmriprep'' = Inl (ModuleNotFoundError ''fmriprep'')" by simp
  from version_before_submodule [of ?env1]
  have "\<And>lookup e. import_version ?env1 = Inr lookup \<Longrightarrow> lookup ''fpreputils'' = Inl e \<Longrightarrow>
      snd (init_py ?env1) = Inl e \<and> (\<forall>n. ImportSubmodule n \<notin> set (fst (init_py ?env1)))"
    by blast
  from this [OF h1 h1']
  have r1: "snd (init_py ?env1) = Inl (PackageNotFoundError ''fpreputils'')"
    and n1: "ImportSubmodule ''fmriprep'' \<notin> set (fst (init_py ?env1))"
    by blast+
  from version_before_submodule [of ?env2]
  have "\<And>lookup v e. import_version ?env2 = Inr lookup \<Longrightarrow> lookup ''fpreputils'' = Inr v \<Longrightarrow>
      import_submodule ?env2 ''fmriprep'' = Inl e \<Longrightarrow>
      init_py ?env2 = ([CallVersion ''fpreputils'', ImportSubmodule ''fmriprep''], Inl e)"
    by blast
  from this [OF h2 h2' h3]
  have r2: "init_py ?env2 =
      ([CallVersion ''fpreputils'', ImportSubmodule ''fmriprep''],
       Inl (ModuleNotFoundError ''fmriprep''))" .
  from h1 h1' h2 h2' h3 r1 n1 r2 show ?thesis by blast
qed

subsection \<open>The namespace after a successful import\<close>

text \<open>
  C3, as the specification states it: whenever the package is installed with metadata,
  the import succeeds. This fails where the metadata lookup returns the non-empty
  version \<^verbatim>\<open>0.1\<close> and an import inside the submodule raises (\<^verbatim>\<open>setup.py\<close> declares no
  dependencies, so none is installed with the package): the import of the package fails.
\<close>

theorem version_exposed_counterexample:
  "import_version
     \<lparr>import_version =
        Inr (\<lambda>n. if n = ''fpreputils'' then Inr ''0.1'' else Inl (PackageNotFoundError n)),
      import_submodule = (\<lambda>n. Inl (ModuleNotFoundError ''numpy''))\<rparr>
     = Inr (\<lambda>n. if n = ''fpreputils'' then Inr ''0.1'' else Inl (PackageNotFoundError n))
   \<and> (\<lambda>n. if n = ''fpreputils'' then Inr ''0.1'' else Inl (PackageNotFoundError n)) ''fpreputils''
     = (Inr ''0.1'' :: exn + string)
   \<and> ''0.1'' \<noteq> ''''
   \<and> snd (init_py
     \<lparr>import_version =
        Inr (\<lambda>n. if n = ''fpreputils'' then Inr ''0.1'' else Inl (PackageNotFoundError n)),
      import_submodule = (\<lambda>n. Inl (ModuleNotFoundError ''numpy''))\<rparr>)
     = Inl (ModuleNotFoundError ''numpy'')"
  by (simp add: init_py_def)

text \<open>
  C3, amended: whenever the metadata lookup returns a non-empty version string and the
  submodule \<^verbatim>\<open>fmriprep\<close> imports without raising, the import of the package succeeds and
  \<^verbatim>\<open>__version__\<close> is that non-empty string from the metadata. That the lookup returned
  says that \<^verbatim>\<open>version\<close> was imported and called.
\<close>

theorem version_exposed:
  assumes "import_version env = Inr lookup"
      and "lookup ''fpreputils'' = Inr v" and "v \<noteq> []"
      and "import_submodule env ''fmriprep'' = Inr m"
  shows "\<exists>ns s. snd (init_py env) = Inr ns \<and> ns ''__version__'' = Some (PyStr s) \<and> s = v \<and> s \<noteq> []"
  using assms by (simp add: init_py_succeeds)

text \<open>
  C3 at an interpreter where \<^verbatim>\<open>fpreputils\<close> is installed with version \<^verbatim>\<open>0.1\<close> and the
  submodule imports.
\<close>

theorem version_exposed_witness:
  "import_version
     \<lparr>import_version =
        Inr (\<lambda>n. if n = ''fpreputils'' then Inr ''0.1'' else Inl (PackageNotFoundError n)),
      import_submodule = (\<lambda>n. Inr (PyModule (''fpreputils.'' @ n)))\<rparr>
     = Inr (\<lambda>n. if n = ''fpreputils'' then Inr ''0.1'' else Inl (PackageNotFoundError n))
   \<and> (\<lambda>n. if n = ''fpreputils'' then Inr ''0.1'' else Inl (PackageNotFoundError n)) ''fpreputils''
     = (Inr ''0.1'' :: exn + string)
   \<and> ''0.1'' \<noteq> ''''
   \<and> import_submodule
     \<lparr>import_version =
        Inr (\<lambda>n. if n = ''fpreputils'' then Inr ''0.1'' else Inl (PackageNotFoundError n)),
      import_submodule = (\<lambda>n. Inr (PyModule (''fpreputils.'' @ n)))\<rparr> ''fmriprep''
     = Inr (PyModule ''fpreputils.fmriprep'')
   \<and> (\<exists>ns. snd (init_py
     \<lparr>import_version =
        Inr (\<lambda>n. if n = ''fpreputils'' then Inr ''0.1'' else Inl (PackageNotFoundError n)),
      import_submodule = (\<lambda>n. Inr (PyModule (''fpreputils.'' @ n)))\<rparr>) = Inr ns
      \<and> ns ''__version__'' = Some (PyStr ''0.1''))"
proof -
  let ?lookup = "\<lambda>n. if n = ''fpreputils'' then Inr ''0.1'' else Inl (PackageNotFoundError n)"
  let ?env = "\<lparr>import_version = Inr ?lookup,
      import_submodule = (\<lambda>n. Inr (PyModule (''fpreputils.'' @ n)))\<rparr>"
  have h0: "import_version ?env = Inr ?lookup" by simp
  have h1: "?lookup ''fpreputils'' = Inr ''0.1''" by simp
  have h2: "''0.1'' \<noteq> ''''" by simp
  have h3: "import_submodule ?env ''fmriprep'' = Inr (PyModule ''fpreputils.fmriprep'')" by simp
  from version_exposed [OF h0 h1 h2 h3]
  have "\<exists>ns. snd (init_py ?env) = Inr ns \<and> ns ''__version__'' = Some (PyStr ''0.1'')"
    by blast
  with h0 h1 h2 h3 show ?thesis by blast
qed

text \<open>
  C4: after a successful import, the attribute \<^verbatim>\<open>fmriprep\<close> of the package is the
  submodule the import system returned.
\<close>

theorem submodule_accessible:
  assumes "init_py env = (calls, Inr ns)"
  shows "\<exists>m. import_submodule env ''fmriprep'' = Inr m \<and> ns ''fmriprep'' = Some m"
  using assms by (rule init_py_success_cases) simp

text \<open>C4 at an interpreter where the lookup and the submodule import succeed.\<close>

theorem submodule_accessible_witness:
  "init_py \<lparr>import_version = Inr (\<lambda>n. Inr ''0.1''),
            import_submodule = (\<lambda>n. Inr (PyModule (''fpreputils.'' @ n)))\<rparr>
     = ([CallVersion ''fpreputils'', ImportSubmodule ''fmriprep''],
        Inr [''version'' \<mapsto> PyFunction ''importlib.metadata.version'',
             ''__version__'' \<mapsto> PyStr ''0.1'',
             ''fmriprep'' \<mapsto> PyModule ''fpreputils.fmriprep'',
             ''__all__'' \<mapsto> PyList [''fmriprep'']])
   \<and> [''version'' \<mapsto> PyFunction ''importlib.metadata.version'',
       ''__version__'' \<mapsto> PyStr ''0.1'',
       ''fmriprep'' \<mapsto> PyModule ''fpreputils.fmriprep'',
       ''__all__'' \<mapsto> PyList [''fmriprep'']] ''fmriprep''
     = Some (PyModule ''fpreputils.fmriprep'')"
proof -
  let ?env = "\<lparr>import_version = Inr (\<lambda>n. Inr ''0.1''),
            import_submodule = (\<lambda>n. Inr (PyModule (''fpreputils.'' @ n)))\<rparr>"
  let ?ns = "[''version'' \<mapsto> PyFunction ''importlib.metadata.version'',
             ''__version__'' \<mapsto> PyStr ''0.1'',
             ''fmriprep'' \<mapsto> PyModule ''fpreputils.fmriprep'',
             ''__all__'' \<mapsto> PyList [''fmriprep'']]"
  have h: "init_py ?env = ([CallVersion ''fpreputils'', ImportSubmodule ''fmriprep''], Inr ?ns)"
    by (simp add: init_py_def)
  from submodule_accessible [OF h]
  have "?ns ''fmriprep'' = Some (PyModule ''fpreputils.fmriprep'')" by simp
  with h show ?thesis by blast
qed

text \<open>
  C7: after a successful import, \<^verbatim>\<open>__all__\<close> is the one-element list holding
  \<^verbatim>\<open>fmriprep\<close>; \<^verbatim>\<open>__version__\<close> is an attribute of the package, holding the version the
  lookup returned, and is not in \<^verbatim>\<open>__all__\<close>.
\<close>

theorem export_list:
  assumes "init_py env = (calls, Inr ns)"
  shows "ns ''__all__'' = Some (PyList [''fmriprep''])
       \<and> (\<exists>lookup v. import_version env = Inr lookup \<and> lookup ''fpreputils'' = Inr v
             \<and> ns ''__version__'' = Some (PyStr v))
       \<and> (\<forall>xs. ns ''__all__'' = Some (PyList xs) \<longrightarrow> length xs = 1 \<and> ''__version__'' \<notin> set xs)"
  using assms by (rule init_py_success_cases) simp

text \<open>C7 at an interpreter where the lookup returns \<^verbatim>\<open>0.1.dev3\<close>.\<close>

theorem export_list_witness:
  "init_py \<lparr>import_version = Inr (\<lambda>n. Inr ''0.1.dev3''),
            import_submodule = (\<lambda>n. Inr (PyModule n))\<rparr>
     = ([CallVersion ''fpreputils'', ImportSubmodule ''fmriprep''],
        Inr [''version'' \<mapsto> PyFunction ''importlib.metadata.version'',
             ''__version__'' \<mapsto> PyStr ''0.1.dev3'',
             ''fmriprep'' \<mapsto> PyModule ''fmriprep'',
             ''__all__'' \<mapsto> PyList [''fmriprep'']])
   \<and> [''version'' \<mapsto> PyFunction ''importlib.metadata.version'',
       ''__version__'' \<mapsto> PyStr ''0.1.dev3'',
       ''fmriprep'' \<mapsto> PyModule ''fmriprep'',
       ''__all__'' \<mapsto> PyList [''fmriprep'']] ''__all__''
     = Some (PyList [''fmriprep''])
   \<and> [''version'' \<mapsto> PyFunction ''importlib.metadata.version'',
       ''__version__'' \<mapsto> PyStr ''0.1.dev3'',
       ''fmriprep'' \<mapsto> PyModule ''fmriprep'',
       ''__all__'' \<mapsto> PyList [''fmriprep'']] ''__version__''
     = Some (PyStr ''0.1.dev3'')"
proof -
  let ?env = "\<lparr>import_version = Inr (\<lambda>n. Inr ''0.1.dev3''),
            import_submodule = (\<lambda>n. Inr (PyModule n))\<rparr>"
  let ?ns = "[''version'' \<mapsto> PyFunction ''importlib.metadata.version'',
             ''__version__'' \<mapsto> PyStr ''0.1.dev3'',
             ''fmriprep'' \<mapsto> PyModule ''fmriprep'',
             ''__all__'' \<mapsto> PyList [''fmriprep'']]"
  have h: "init_py ?env = ([CallVersion ''fpreputils'', ImportSubmodule ''fmriprep''], Inr ?ns)"
    by (simp add: init_py_def)
  from export_list [OF h]
  have "?ns ''__all__'' = Some (PyList [''fmriprep''])"
    and "?ns ''__version__'' = Some (PyStr ''0.1.dev3'')"
    by simp_all
  with h show ?thesis by blast
qed

end
